theory Spec2Isabelle
  imports Complex_Main
begin

section \<open>Duplicate checking: data model (mock-db.ts)\<close>

text \<open>
  The record store of the duplicate-checking proof of concept and the request handler
  \<^verbatim>\<open>POST\<close> of \<^verbatim>\<open>api/chat.ts\<close>, as a shallow embedding.

  Conventions of the embedding.
  \<^item> A JavaScript string is a \<^typ>\<open>string\<close>; a character stands for a UTF-16 code unit
    below 256, so \<^verbatim>\<open>length\<close>, \<^verbatim>\<open>includes\<close> and \<^verbatim>\<open>split\<close> count what the source counts
    on such strings.
  \<^item> An optional field (\<^verbatim>\<open>details?: string\<close>) is an \<^typ>\<open>'a option\<close>. The identifiers
    \<^verbatim>\<open>siteId\<close> and \<^verbatim>\<open>porId\<close> of a submitted award are declared \<^verbatim>\<open>string\<close> but arrive
    unvalidated from the request body, so in the award they are options as well:
    \<open>None\<close> is the missing (\<^verbatim>\<open>undefined\<close>) identifier.
  \<^item> Record fields carry a prefix where two types of the source share a field name
    (\<open>li_\<close> line-item definition, \<open>c_\<close> contract, \<open>a_\<close> award, \<open>p_\<close> search parameters,
    \<open>m_\<close> variable-cost match, \<open>r_\<close> detection result, \<open>d_\<close> duplicate finding).
  \<^item> A JavaScript number that is compared with a threshold is a \<^typ>\<open>rat\<close>: every
    finite double is a rational, and for doubles \<open>x\<close> the tests \<^verbatim>\<open>x > 0.7\<close> and
    \<^verbatim>\<open>m / n > 0.5\<close> agree with the exact comparisons.
  \<^item> Everything outside the handler's control (the model call, \<^verbatim>\<open>crypto.randomUUID\<close>,
    the conversational stream) is a function on an explicit world state \<open>'s\<close>.
\<close>

datatype line_item_type = FixedCost | VariableCost

record LineItem =
  li_id :: string
  li_name :: string
  li_type :: line_item_type
  li_details :: "string option"

datatype contract_status = Awarded | Pending | Cancelled

text \<open>The element type of \<^verbatim>\<open>Contract.lineItems\<close> and of \<^verbatim>\<open>AwardData.lineItems\<close>.\<close>

record entry =
  lineItemId :: string
  quantity :: "rat option"
  details :: "string option"

record Contract =
  c_id :: string
  c_contractNumber :: string
  c_siteId :: string
  c_porId :: string
  c_status :: contract_status
  c_lineItems :: "entry list"
  c_awardedDate :: string

record AwardData =
  a_siteId :: "string option"
  a_porId :: "string option"
  a_lineItems :: "entry list"

text \<open>
  The module-level arrays \<^verbatim>\<open>MOCK_LINE_ITEMS\<close> and \<^verbatim>\<open>MOCK_CONTRACTS\<close> that the query
  functions read; the functions below take them as a parameter, and \<open>MOCK_DB\<close> is the
  content the source seeds them with.
\<close>

record store =
  line_items :: "LineItem list"
  contracts :: "Contract list"

definition MOCK_LINE_ITEMS :: "LineItem list" where
  "MOCK_LINE_ITEMS =
    [\<lparr>li_id = ''line-001'', li_name = ''Fiber Optic Cable Installation'',
      li_type = VariableCost, li_details = None\<rparr>,
     \<lparr>li_id = ''line-002'', li_name = ''Network Switch'',
      li_type = FixedCost, li_details = None\<rparr>,
     \<lparr>li_id = ''line-003'', li_name = ''Tower Foundation'',
      li_type = FixedCost, li_details = None\<rparr>,
     \<lparr>li_id = ''line-004'', li_name = ''Site Preparation'',
      li_type = VariableCost, li_details = None\<rparr>,
     \<lparr>li_id = ''line-005'', li_name = ''Equipment Rack'',
      li_type = FixedCost, li_details = None\<rparr>]"

definition MOCK_CONTRACTS :: "Contract list" where
  "MOCK_CONTRACTS =
    [\<lparr>c_id = ''contract-001'', c_contractNumber = ''PO-2025-001'',
      c_siteId = ''site-001'', c_porId = ''por-001'', c_status = Awarded,
      c_lineItems =
        [\<lparr>lineItemId = ''line-001'', quantity = None,
          details = Some ''Install fiber optic cable from main hub to building basement''\<rparr>,
         \<lparr>lineItemId = ''line-002'', quantity = Some 2, details = None\<rparr>],
      c_awardedDate = ''2025-01-15''\<rparr>,
     \<lparr>c_id = ''contract-002'', c_contractNumber = ''PO-2025-002'',
      c_siteId = ''site-001'', c_porId = ''por-001'', c_status = Awarded,
      c_lineItems =
        [\<lparr>lineItemId = ''line-004'', quantity = None,
          details = Some ''Prepare site for fiber installation - trenching and conduit''\<rparr>],
      c_awardedDate = ''2025-01-20''\<rparr>,
     \<lparr>c_id = ''contract-003'', c_contractNumber = ''PO-2025-003'',
      c_siteId = ''site-002'', c_porId = ''por-002'', c_status = Awarded,
      c_lineItems =
        [\<lparr>lineItemId = ''line-002'', quantity = Some 5, details = None\<rparr>,
         \<lparr>lineItemId = ''line-005'', quantity = Some 3, details = None\<rparr>],
      c_awardedDate = ''2025-02-01''\<rparr>,
     \<lparr>c_id = ''contract-004'', c_contractNumber = ''PO-2025-004'',
      c_siteId = ''site-001'', c_porId = ''por-001'', c_status = Cancelled,
      c_lineItems =
        [\<lparr>lineItemId = ''line-001'', quantity = None, details = Some ''Cancelled contract''\<rparr>],
      c_awardedDate = ''2025-01-10''\<rparr>]"

definition MOCK_DB :: store where
  "MOCK_DB = \<lparr>line_items = MOCK_LINE_ITEMS, contracts = MOCK_CONTRACTS\<rparr>"

subsection \<open>Query functions\<close>

record search_params =
  p_siteId :: "string option"
  p_porId :: "string option"
  p_lineItemIds :: "string list"

text \<open>
  \<^verbatim>\<open>MOCK_CONTRACTS.filter(c => c.status === 'awarded' && c.siteId === params.siteId &&
  c.porId === params.porId && c.lineItems.some(li => params.lineItemIds.includes(li.lineItemId)))\<close>.
  The strict equality of a contract's identifier with a missing one is false.
\<close>

definition searchExistingContracts :: "store \<Rightarrow> search_params \<Rightarrow> Contract list" where
  "searchExistingContracts db params =
     filter (\<lambda>contract.
        c_status contract = Awarded \<and>
        Some (c_siteId contract) = p_siteId params \<and>
        Some (c_porId contract) = p_porId params \<and>
        list_ex (\<lambda>li. lineItemId li \<in> set (p_lineItemIds params)) (c_lineItems contract))
      (contracts db)"

text \<open>\<^verbatim>\<open>MOCK_LINE_ITEMS.find(li => li.id === lineItemId)\<close>\<close>

definition getLineItemDetails :: "store \<Rightarrow> string \<Rightarrow> LineItem option" where
  "getLineItemDetails db lid = find (\<lambda>li. li_id li = lid) (line_items db)"

text \<open>\<^verbatim>\<open>MOCK_CONTRACTS.find(c => c.id === contractId)\<close>\<close>

definition getContractDetails :: "store \<Rightarrow> string \<Rightarrow> Contract option" where
  "getContractDetails db cid = find (\<lambda>c. c_id c = cid) (contracts db)"

section \<open>String operations of the fallback\<close>

text \<open>
  \<^verbatim>\<open>x || d\<close> on an optional string: the default replaces both the missing and the empty
  string.
\<close>

definition orElse :: "string option \<Rightarrow> string \<Rightarrow> string" where
  "orElse x d = (case x of None \<Rightarrow> d | Some v \<Rightarrow> if v = [] then d else v)"

text \<open>
  White space as the regular expression class \<^verbatim>\<open>\s\<close> has it below code unit 256: tab,
  line feed, vertical tab, form feed, carriage return, space and no-break space.
\<close>

definition isSpace :: "char \<Rightarrow> bool" where
  "isSpace c = (let n = (of_char c :: nat) in (9 \<le> n \<and> n \<le> 13) \<or> n = 32 \<or> n = 160)"

text \<open>
  \<^verbatim>\<open>toLowerCase\<close> below code unit 256: the letters A to Z and the accented capitals
  192 to 222 (the multiplication sign 215 apart) move up by 32.
\<close>

definition lowerChar :: "char \<Rightarrow> char" where
  "lowerChar c =
     (let n = (of_char c :: nat)
      in if (65 \<le> n \<and> n \<le> 90) \<or> (192 \<le> n \<and> n \<le> 222 \<and> n \<noteq> 215)
         then char_of (n + 32) else c)"

definition toLowerCase :: "string \<Rightarrow> string" where
  "toLowerCase s = map lowerChar s"

text \<open>
  \<^verbatim>\<open>s.split(/\s+/)\<close>: the pieces between maximal runs of white space; a string that
  starts or ends with white space yields an empty first or last piece, and the empty
  string yields one empty piece.
\<close>

function split_ws :: "string \<Rightarrow> string list" where
  "split_ws s =
     (let tok = takeWhile (\<lambda>c. \<not> isSpace c) s;
          rest = dropWhile (\<lambda>c. \<not> isSpace c) s
      in if rest = [] then [tok] else tok # split_ws (dropWhile isSpace rest))"
  by pat_completeness auto
termination
proof (relation "measure length")
  show "wf (measure length)" by simp
next
  fix s :: string and tok rest
  assume r: "rest = dropWhile (\<lambda>c. \<not> isSpace c) s" and ne: "rest \<noteq> []"
  from ne obtain c cs where rc: "rest = c # cs" by (cases rest) auto
  have "length (dropWhile isSpace rest) \<le> length rest"
    by (rule length_dropWhile_le)
  moreover have "dropWhile (\<lambda>c. \<not> isSpace c) s = c # cs"
    using r rc by simp
  then have "isSpace c"
    by (simp add: dropWhile_eq_Cons_conv)
  then have "length (dropWhile isSpace rest) \<le> length cs"
    using rc length_dropWhile_le [of isSpace cs] by simp
  moreover have "length rest \<le> length s"
    unfolding r by (rule length_dropWhile_le)
  ultimately show "(dropWhile isSpace rest, s) \<in> measure length"
    using rc by simp
qed

declare split_ws.simps [simp del]

text \<open>\<^verbatim>\<open>s.startsWith(p)\<close> and \<^verbatim>\<open>s.includes(kw)\<close>\<close>

definition startsWith :: "string \<Rightarrow> string \<Rightarrow> bool" where
  "startsWith s p = (take (length p) s = p)"

fun includes_str :: "string \<Rightarrow> string \<Rightarrow> bool" where
  "includes_str [] kw = (kw = [])"
| "includes_str (c # cs) kw = (startsWith (c # cs) kw \<or> includes_str cs kw)"

text \<open>The decimal digits of a natural number, as template literals print a count.\<close>

fun nat_to_string :: "nat \<Rightarrow> string" where
  "nat_to_string n =
     (if n < 10 then [char_of (48 + n)]
      else nat_to_string (n div 10) @ [char_of (48 + n mod 10)])"

declare nat_to_string.simps [simp del]

section \<open>Semantic detection for variable-cost items (chat.ts)\<close>

text \<open>
  The object that \<^verbatim>\<open>generateObject\<close> returns under \<^verbatim>\<open>duplicateAnalysisSchema\<close>. The
  call is a function of the two detail strings that the prompt embeds and of the world
  state; \<open>None\<close> is any failure of the call (the \<^verbatim>\<open>catch\<close> branch).
\<close>

record analysis =
  similarity_score :: rat
  is_duplicate :: bool
  reasoning :: string

type_synonym 's generate = "string \<Rightarrow> string \<Rightarrow> 's \<Rightarrow> analysis option \<times> 's"

record vc_match =
  m_contractId :: string
  m_contractNumber :: string
  m_details :: string

record detect_result =
  r_isDuplicate :: bool
  r_similarityScore :: rat
  r_reasoning :: string
  r_matchingContractId :: "string option"

text \<open>
  \<^verbatim>\<open>existingContracts.flatMap(contract => contract.lineItems
     .filter(li => li.lineItemId === newLineItem.lineItemId)
     .map(li => ({contractId, contractNumber, details: li.details || ''})))
   .filter(match => match.details)\<close>
\<close>

definition variableCostMatches :: "entry \<Rightarrow> Contract list \<Rightarrow> vc_match list" where
  "variableCostMatches newLineItem existingContracts =
     filter (\<lambda>match. m_details match \<noteq> [])
       (concat (map (\<lambda>contract.
          map (\<lambda>li. \<lparr>m_contractId = c_id contract,
                     m_contractNumber = c_contractNumber contract,
                     m_details = orElse (details li) []\<rparr>)
            (filter (\<lambda>li. lineItemId li = lineItemId newLineItem) (c_lineItems contract)))
        existingContracts))"

text \<open>The \<^verbatim>\<open>catch\<close> branch: keyword matching when the model call fails.\<close>

definition keywordFallback :: "entry \<Rightarrow> vc_match \<Rightarrow> detect_result" where
  "keywordFallback newLineItem firstMatch =
     (let newText = toLowerCase (orElse (details newLineItem) []);
          existingText = toLowerCase (m_details firstMatch);
          keywords = filter (\<lambda>w. length w > 3) (split_ws newText);
          matches = length (filter (\<lambda>kw. includes_str existingText kw) keywords);
          similarityScore =
            (if length keywords > 0 then of_nat matches / of_nat (length keywords) else 0)
      in \<lparr>r_isDuplicate = similarityScore > 1 / 2,
          r_similarityScore = similarityScore,
          r_reasoning = ''Keyword-based similarity: '' @ nat_to_string matches @ ''/'' @
            nat_to_string (length keywords) @ '' keywords match (AI analysis unavailable)'',
          r_matchingContractId = Some (m_contractId firstMatch)\<rparr>)"

text \<open>
  \<^verbatim>\<open>detectVariableCostDuplicates\<close>. The second early return of the source
  (\<^verbatim>\<open>if (!firstMatch)\<close>) cannot be taken: the array is not empty there and its elements
  are objects.
\<close>

definition detectVariableCostDuplicates ::
    "'s generate \<Rightarrow> entry \<Rightarrow> Contract list \<Rightarrow> 's \<Rightarrow> detect_result \<times> 's" where
  "detectVariableCostDuplicates generateObject newLineItem existingContracts s =
     (case variableCostMatches newLineItem existingContracts of
        [] \<Rightarrow>
          (\<lparr>r_isDuplicate = False, r_similarityScore = 0,
            r_reasoning = ''No variable-cost items with details found to compare'',
            r_matchingContractId = None\<rparr>, s)
      | firstMatch # _ \<Rightarrow>
          (case generateObject (orElse (details newLineItem) ''No details provided'')
                  (m_details firstMatch) s of
             (Some obj, s') \<Rightarrow>
               (\<lparr>r_isDuplicate = (is_duplicate obj \<or> similarity_score obj > 7 / 10),
                 r_similarityScore = similarity_score obj,
                 r_reasoning = reasoning obj,
                 r_matchingContractId = Some (m_contractId firstMatch)\<rparr>, s')
           | (None, s') \<Rightarrow> (keywordFallback newLineItem firstMatch, s')))"

section \<open>The request handler (chat.ts)\<close>

datatype match_type = Exact | Semantic

record duplicate =
  d_lineItemId :: string
  d_lineItemName :: string
  d_existingContractId :: string
  d_existingContractNumber :: string
  d_matchType :: match_type
  d_similarityScore :: "rat option"
  d_aiReasoning :: "string option"

datatype warning_level = Low | Medium | High

text \<open>
  The chunks written to the stream. The three texts of the handler are template literals
  over the values kept here: the status message (site, POR, number of line items), the
  warning narrative (number of duplicates) and the success narrative (number of line
  items). \<open>ModelChunk\<close> is a chunk of the merged conversational stream.
\<close>

datatype text_body =
    StatusText "string option" "string option" nat
  | DuplicatesFoundText nat
  | NoDuplicatesText nat

datatype chunk =
    TextStart string
  | TextDelta string text_body
  | TextEnd string
  | DataDuplicateWarning string "duplicate list" bool
  | DataDuplicateSummary string nat nat warning_level
  | ModelChunk string

datatype role = System | User | Assistant

datatype part = TextPart string | OtherPart

record ui_message =
  role :: role
  parts :: "part list"

text \<open>The parsed request body: \<^verbatim>\<open>body.messages || []\<close> and \<^verbatim>\<open>body.awardData\<close>.\<close>

record request =
  messages :: "ui_message list"
  awardData :: "AwardData option"

text \<open>
  \<^verbatim>\<open>createUIMessageStreamResponse({ stream })\<close>: the handler sets no status, so the
  response carries the default 200 and the stream's chunks.
\<close>

record response =
  resp_status :: nat
  resp_body :: "chunk list"

text \<open>
  What the handler calls and does not define: the model call of the detection, the
  identifier source, the conversational stream, and \<^verbatim>\<open>JSON.parse\<close> read at the award
  type (\<open>None\<close> when it throws or yields a falsy value).
\<close>

record 's externals =
  generateObject :: "'s generate"
  randomUUID :: "'s \<Rightarrow> string \<times> 's"
  streamText :: "ui_message list \<Rightarrow> 's \<Rightarrow> string list \<times> 's"
  JSON_parse :: "string \<Rightarrow> AwardData option"

text \<open>
  \<^verbatim>\<open>text.match(/Site:\s*(\S+)/)?.[1]\<close> for a label: the first place where the label
  stands and, after any white space, a run of characters that are not white space
  follows; the capture is that run.
\<close>

fun captureAfter :: "string \<Rightarrow> string \<Rightarrow> string option" where
  "captureAfter label [] = None"
| "captureAfter label (c # cs) =
     (if startsWith (c # cs) label \<and> dropWhile isSpace (drop (length label) (c # cs)) \<noteq> []
      then Some (takeWhile (\<lambda>x. \<not> isSpace x)
                  (dropWhile isSpace (drop (length label) (c # cs))))
      else captureAfter label cs)"

text \<open>Lines 226 to 262: the award from the body, else from the last user message.\<close>

definition extractAwardData :: "'s externals \<Rightarrow> request \<Rightarrow> AwardData option" where
  "extractAwardData ext req =
     (case awardData req of
        Some a \<Rightarrow> Some a
      | None \<Rightarrow>
          if messages req = [] then None
          else
            let lastMessage = last (messages req) in
            if role lastMessage = User then
              let text = concat (map (\<lambda>p. case p of TextPart t \<Rightarrow> t | OtherPart \<Rightarrow> [])
                                   (parts lastMessage));
                  parsed =
                    (if startsWith text ''CHECK_DUPLICATES_AWARD_DATA:''
                     then JSON_parse ext (drop (length ''CHECK_DUPLICATES_AWARD_DATA:'') text)
                     else None)
              in case parsed of
                   Some a \<Rightarrow> Some a
                 | None \<Rightarrow>
                     if includes_str text ''Site:'' \<and> includes_str text ''POR:'' then
                       (case (captureAfter ''Site:'' text, captureAfter ''POR:'' text) of
                          (Some site, Some por) \<Rightarrow>
                            Some \<lparr>a_siteId = Some site, a_porId = Some por, a_lineItems = []\<rparr>
                        | _ \<Rightarrow> None)
                     else None
            else None)"

text \<open>
  \<^verbatim>\<open>existingContracts.filter(contract =>
     contract.lineItems.some(li => li.lineItemId === newLineItem.lineItemId))\<close>
\<close>

definition contractsWithLineItem :: "Contract list \<Rightarrow> entry \<Rightarrow> Contract list" where
  "contractsWithLineItem existingContracts newLineItem =
     filter (\<lambda>contract.
        list_ex (\<lambda>li. lineItemId li = lineItemId newLineItem) (c_lineItems contract))
      existingContracts"

definition exactDuplicate :: "entry \<Rightarrow> LineItem \<Rightarrow> Contract \<Rightarrow> duplicate" where
  "exactDuplicate newLineItem lineItem contract =
     \<lparr>d_lineItemId = lineItemId newLineItem,
      d_lineItemName = li_name lineItem,
      d_existingContractId = c_id contract,
      d_existingContractNumber = c_contractNumber contract,
      d_matchType = Exact,
      d_similarityScore = None,
      d_aiReasoning = None\<rparr>"

text \<open>
  The body of the loop over the proposed line items (lines 350 to 406), on the pair of
  the findings so far and the world state.
\<close>

definition checkLineItem ::
    "store \<Rightarrow> 's generate \<Rightarrow> Contract list \<Rightarrow> entry \<Rightarrow> duplicate list \<times> 's
      \<Rightarrow> duplicate list \<times> 's" where
  "checkLineItem db gen existingContracts newLineItem st =
     (case st of (duplicates, s) \<Rightarrow>
       (case getLineItemDetails db (lineItemId newLineItem) of
          None \<Rightarrow> (duplicates, s)
        | Some lineItem \<Rightarrow>
            let cwl = contractsWithLineItem existingContracts newLineItem in
            if length cwl > 0 then
              if li_type lineItem = FixedCost then
                (duplicates @ map (exactDuplicate newLineItem lineItem) cwl, s)
              else
                (case detectVariableCostDuplicates gen newLineItem cwl s of
                   (aiResult, s') \<Rightarrow>
                     (case r_matchingContractId aiResult of
                        Some cid \<Rightarrow>
                          if r_isDuplicate aiResult \<and> cid \<noteq> [] then
                            (duplicates @
                              [\<lparr>d_lineItemId = lineItemId newLineItem,
                                d_lineItemName = li_name lineItem,
                                d_existingContractId = cid,
                                d_existingContractNumber =
                                  orElse (map_option c_contractNumber
                                            (find (\<lambda>c. c_id c = cid) cwl)) [],
                                d_matchType = Semantic,
                                d_similarityScore = Some (r_similarityScore aiResult),
                                d_aiReasoning = Some (r_reasoning aiResult)\<rparr>], s')
                          else (duplicates, s')
                      | None \<Rightarrow> (duplicates, s')))
            else (duplicates, s)))"

fun checkLineItems ::
    "store \<Rightarrow> 's generate \<Rightarrow> Contract list \<Rightarrow> entry list \<Rightarrow> duplicate list \<times> 's
      \<Rightarrow> duplicate list \<times> 's" where
  "checkLineItems db gen existingContracts [] st = st"
| "checkLineItems db gen existingContracts (newLineItem # rest) st =
     checkLineItems db gen existingContracts rest
       (checkLineItem db gen existingContracts newLineItem st)"

text \<open>Step 2 of the handler up to the end of the loop: the search and the findings.\<close>

definition findDuplicates ::
    "store \<Rightarrow> 's generate \<Rightarrow> AwardData \<Rightarrow> 's \<Rightarrow> duplicate list \<times> 's" where
  "findDuplicates db gen award s =
     (let lineItemIds = map lineItemId (a_lineItems award);
          existingContracts = searchExistingContracts db
            \<lparr>p_siteId = a_siteId award, p_porId = a_porId award, p_lineItemIds = lineItemIds\<rparr>
      in checkLineItems db gen existingContracts (a_lineItems award) ([], s))"

definition warningLevel :: "nat \<Rightarrow> warning_level" where
  "warningLevel n = (if n = 1 then Low else if n \<le> 3 then Medium else High)"

text \<open>
  \<^verbatim>\<open>POST\<close>. With an award the status message is written first, then the findings are
  computed and either the warning, the summary and the warning narrative or the success
  narrative follow; without one the conversational stream is merged and nothing else is
  written.
\<close>

definition POST :: "store \<Rightarrow> 's externals \<Rightarrow> request \<Rightarrow> 's \<Rightarrow> response \<times> 's" where
  "POST db ext req s0 =
     (case extractAwardData ext req of
        None \<Rightarrow>
          (case streamText ext (messages req) s0 of
             (cs, s1) \<Rightarrow> (\<lparr>resp_status = 200, resp_body = map ModelChunk cs\<rparr>, s1))
      | Some award \<Rightarrow>
          (case randomUUID ext s0 of (textId, s1) \<Rightarrow>
           let n = length (a_lineItems award);
               statusChunks =
                 [TextStart textId,
                  TextDelta textId (StatusText (a_siteId award) (a_porId award) n),
                  TextEnd textId]
           in case findDuplicates db (generateObject ext) award s1 of (duplicates, s2) \<Rightarrow>
             if length duplicates > 0 then
               (case randomUUID ext s2 of (warningId, s3) \<Rightarrow>
                case randomUUID ext s3 of (summaryId, s4) \<Rightarrow>
                case randomUUID ext s4 of (summaryTextId, s5) \<Rightarrow>
                  (\<lparr>resp_status = 200,
                    resp_body = statusChunks @
                      [DataDuplicateWarning warningId duplicates True,
                       DataDuplicateSummary summaryId (length duplicates) n
                         (warningLevel (length duplicates)),
                       TextStart summaryTextId,
                       TextDelta summaryTextId (DuplicatesFoundText (length duplicates)),
                       TextEnd summaryTextId]\<rparr>, s5))
             else
               (case randomUUID ext s2 of (successTextId, s3) \<Rightarrow>
                  (\<lparr>resp_status = 200,
                    resp_body = statusChunks @
                      [TextStart successTextId,
                       TextDelta successTextId (NoDuplicatesText n),
                       TextEnd successTextId]\<rparr>, s3))))"

section \<open>Observations and test doubles\<close>

text \<open>What a reader of the stream sees of the summary and the warning chunks.\<close>

fun summaryLevels :: "chunk list \<Rightarrow> warning_level list" where
  "summaryLevels [] = []"
| "summaryLevels (DataDuplicateSummary i k n lvl # cs) = lvl # summaryLevels cs"
| "summaryLevels (c # cs) = summaryLevels cs"

fun duplicateWarnings :: "chunk list \<Rightarrow> duplicate list list" where
  "duplicateWarnings [] = []"
| "duplicateWarnings (DataDuplicateWarning i ds ack # cs) = ds # duplicateWarnings cs"
| "duplicateWarnings (c # cs) = duplicateWarnings cs"

text \<open>
  The same chunk for a proposal with one more line item: only the counts of line items
  in the status message, the summary and the success narrative change.
\<close>

fun countOneMore :: "chunk \<Rightarrow> chunk" where
  "countOneMore (TextDelta i (StatusText site por n)) = TextDelta i (StatusText site por (Suc n))"
| "countOneMore (TextDelta i (NoDuplicatesText n)) = TextDelta i (NoDuplicatesText (Suc n))"
| "countOneMore (DataDuplicateSummary i k n lvl) = DataDuplicateSummary i k (Suc n) lvl"
| "countOneMore c = c"

text \<open>
  The awarded contracts of the store at the award's site and POR that hold a line item
  with the identifier \<open>lid\<close>, in store order.
\<close>

definition awardedAt :: "store \<Rightarrow> AwardData \<Rightarrow> string \<Rightarrow> Contract list" where
  "awardedAt db award lid =
     filter (\<lambda>c. c_status c = Awarded \<and> Some (c_siteId c) = a_siteId award \<and>
                 Some (c_porId c) = a_porId award \<and>
                 (\<exists>e \<in> set (c_lineItems c). lineItemId e = lid))
       (contracts db)"

text \<open>
  Mocked collaborators on a world state that counts the calls made: a model that always
  answers with the same analysis, a model that always fails, and the remaining externals
  (identifiers drawn from the counter, an empty conversational stream, no parsable
  message text).
\<close>

definition fixedOracle :: "analysis \<Rightarrow> nat generate" where
  "fixedOracle a newDetails existingDetails s = (Some a, Suc s)"

definition failingOracle :: "nat generate" where
  "failingOracle newDetails existingDetails s = (None, Suc s)"

definition testExternals :: "nat generate \<Rightarrow> nat externals" where
  "testExternals gen =
     \<lparr>generateObject = gen,
      randomUUID = (\<lambda>s. (nat_to_string s, Suc s)),
      streamText = (\<lambda>ms s. ([], s)),
      JSON_parse = (\<lambda>t. None)\<rparr>"

text \<open>
  Analyses for the mocked model: the one of Scenario B of the specification, and one whose
  two signals disagree (score above the threshold, \<^verbatim>\<open>is_duplicate\<close> false).
\<close>

definition analysisB :: analysis where
  "analysisB = \<lparr>similarity_score = 85 / 100, is_duplicate = True, reasoning = ''same work''\<rparr>"

definition analysisScoreOnly :: analysis where
  "analysisScoreOnly =
     \<lparr>similarity_score = 8 / 10, is_duplicate = False, reasoning = ''close wording''\<rparr>"

text \<open>The first awarded contract of the seed data, and a proposed variable-cost entry.\<close>

definition contract001 :: Contract where
  "contract001 = hd MOCK_CONTRACTS"

definition fiberEntry :: entry where
  "fiberEntry = \<lparr>lineItemId = ''line-001'', quantity = None,
     details = Some ''Install Fiber cable from hub''\<rparr>"

text \<open>Scenario A of the specification: one fixed-cost item at site-001 / por-001.\<close>

definition scenarioA :: AwardData where
  "scenarioA = \<lparr>a_siteId = Some ''site-001'', a_porId = Some ''por-001'',
     a_lineItems = [\<lparr>lineItemId = ''line-002'', quantity = Some 1, details = None\<rparr>]\<rparr>"

text \<open>Proposed entries for the examples: a fixed-cost item, an item without a line-item
  definition, a variable-cost item in capitals and one without details.\<close>

definition switchEntry :: entry where
  "switchEntry = \<lparr>lineItemId = ''line-002'', quantity = Some 1, details = None\<rparr>"

definition unknownEntry :: entry where
  "unknownEntry = \<lparr>lineItemId = ''line-999'', quantity = Some 1, details = None\<rparr>"

definition shoutedEntry :: entry where
  "shoutedEntry = \<lparr>lineItemId = ''line-001'', quantity = None,
     details = Some ''INSTALL FIBER CABLE''\<rparr>"

definition bareEntry :: entry where
  "bareEntry = \<lparr>lineItemId = ''line-001'', quantity = None, details = None\<rparr>"

text \<open>
  Further contracts for the examples: a second awarded contract with line-002 at
  site-001 / por-001, one whose line-001 entry has no details, and one with other details.
\<close>

definition contract005 :: Contract where
  "contract005 =
     \<lparr>c_id = ''contract-005'', c_contractNumber = ''PO-2025-005'',
      c_siteId = ''site-001'', c_porId = ''por-001'', c_status = Awarded,
      c_lineItems = [\<lparr>lineItemId = ''line-002'', quantity = Some 4, details = None\<rparr>],
      c_awardedDate = ''2025-02-10''\<rparr>"

definition contractNoDetails :: Contract where
  "contractNoDetails =
     \<lparr>c_id = ''contract-006'', c_contractNumber = ''PO-2025-006'',
      c_siteId = ''site-001'', c_porId = ''por-001'', c_status = Awarded,
      c_lineItems = [\<lparr>lineItemId = ''line-001'', quantity = None, details = None\<rparr>],
      c_awardedDate = ''2025-02-11''\<rparr>"

definition contract007 :: Contract where
  "contract007 =
     \<lparr>c_id = ''contract-007'', c_contractNumber = ''PO-2025-007'',
      c_siteId = ''site-001'', c_porId = ''por-001'', c_status = Awarded,
      c_lineItems = [\<lparr>lineItemId = ''line-001'', quantity = None,
                      details = Some ''Pull fiber to the roof''\<rparr>],
      c_awardedDate = ''2025-02-12''\<rparr>"

text \<open>The seed data with the second awarded contract added.\<close>

definition twoContractsDB :: store where
  "twoContractsDB = \<lparr>line_items = MOCK_LINE_ITEMS, contracts = MOCK_CONTRACTS @ [contract005]\<rparr>"

text \<open>Awards for the examples: one variable-cost item; one item, site identifier missing.\<close>

definition fiberAward :: AwardData where
  "fiberAward = \<lparr>a_siteId = Some ''site-001'', a_porId = Some ''por-001'',
     a_lineItems = [fiberEntry]\<rparr>"

definition missingSiteAward :: AwardData where
  "missingSiteAward = \<lparr>a_siteId = None, a_porId = Some ''por-001'',
     a_lineItems = [switchEntry]\<rparr>"

text \<open>
  An existing entry is comparable with a proposed one when it carries the same line-item
  identifier and non-empty details.
\<close>

definition hasDetails :: "entry \<Rightarrow> bool" where
  "hasDetails e = (case details e of None \<Rightarrow> False | Some d \<Rightarrow> d \<noteq> [])"

definition comparable :: "entry \<Rightarrow> entry \<Rightarrow> bool" where
  "comparable newLineItem e = (lineItemId e = lineItemId newLineItem \<and> hasDetails e)"

text \<open>The matches that one contract contributes to \<open>variableCostMatches\<close>.\<close>

definition matchesOf :: "entry \<Rightarrow> Contract \<Rightarrow> vc_match list" where
  "matchesOf newLineItem contract =
     filter (\<lambda>match. m_details match \<noteq> [])
       (map (\<lambda>li. \<lparr>m_contractId = c_id contract,
                   m_contractNumber = c_contractNumber contract,
                   m_details = orElse (details li) []\<rparr>)
          (filter (\<lambda>li. lineItemId li = lineItemId newLineItem) (c_lineItems contract)))"



section \<open>Lemmas about the loop\<close>

lemma checkLineItems_append:
  "checkLineItems db gen ex (xs @ ys) st =
     checkLineItems db gen ex ys (checkLineItems db gen ex xs st)"
  by (induction xs arbitrary: st) simp_all

lemma checkLineItem_acc:
  "checkLineItem db gen ex item (dups, s) =
     (dups @ fst (checkLineItem db gen ex item ([], s)),
      snd (checkLineItem db gen ex item ([], s)))"
  by (simp add: checkLineItem_def Let_def split: option.splits prod.splits)

lemma checkLineItems_acc:
  "checkLineItems db gen ex xs (dups, s) =
     (dups @ fst (checkLineItems db gen ex xs ([], s)),
      snd (checkLineItems db gen ex xs ([], s)))"
proof (induction xs arbitrary: dups s)
  case Nil
  show ?case by simp
next
  case (Cons x xs)
  obtain d1 s1 where st: "checkLineItem db gen ex x ([], s) = (d1, s1)"
    by (cases "checkLineItem db gen ex x ([], s)")
  have a: "checkLineItem db gen ex x (dups, s) = (dups @ d1, s1)"
    using checkLineItem_acc [of db gen ex x dups s] st by simp
  show ?case
    using Cons.IH [of "dups @ d1" s1] Cons.IH [of d1 s1] by (simp add: a st)
qed

text \<open>
  The search keeps a contract when it holds any of the proposed identifiers; the loop
  then keeps those that hold the entry's own. Together: the awarded contracts at the
  site and POR that hold the entry's identifier.
\<close>

lemma contractsWithLineItem_search:
  assumes "lineItemId item \<in> set ids"
  shows "contractsWithLineItem
           (searchExistingContracts db
              \<lparr>p_siteId = a_siteId award, p_porId = a_porId award, p_lineItemIds = ids\<rparr>) item
         = awardedAt db award (lineItemId item)"
proof -
  have "\<And>c e. e \<in> set (c_lineItems c) \<Longrightarrow> lineItemId e = lineItemId item \<Longrightarrow>
          \<exists>li \<in> set (c_lineItems c). lineItemId li \<in> set ids"
    using assms by metis
  then show ?thesis
    by (auto simp: contractsWithLineItem_def searchExistingContracts_def awardedAt_def
          list_ex_iff intro!: filter_cong)
qed

lemma checkLineItem_cong:
  assumes "contractsWithLineItem ex item = contractsWithLineItem ex' item"
  shows "checkLineItem db gen ex item st = checkLineItem db gen ex' item st"
  by (simp only: checkLineItem_def assms)

lemma checkLineItems_cong:
  assumes "\<forall>item \<in> set xs. contractsWithLineItem ex item = contractsWithLineItem ex' item"
  shows "checkLineItems db gen ex xs st = checkLineItems db gen ex' xs st"
  using assms
proof (induction xs arbitrary: st)
  case Nil
  show ?case by simp
next
  case (Cons x xs)
  then show ?case by (simp add: checkLineItem_cong [of ex x ex'])
qed

lemma warningLevel_cases:
  "n \<noteq> 0 \<Longrightarrow>
     warningLevel n = (if n = 1 then Low else if n = 2 \<or> n = 3 then Medium else High)"
  unfolding warningLevel_def by (simp; arith)

lemma scenarioA_findings:
  "findDuplicates MOCK_DB (fixedOracle a) scenarioA s =
     ([\<lparr>d_lineItemId = ''line-002'', d_lineItemName = ''Network Switch'',
        d_existingContractId = ''contract-001'', d_existingContractNumber = ''PO-2025-001'',
        d_matchType = Exact, d_similarityScore = None, d_aiReasoning = None\<rparr>], s)"
  by (simp add: findDuplicates_def scenarioA_def MOCK_DB_def MOCK_CONTRACTS_def
        MOCK_LINE_ITEMS_def searchExistingContracts_def checkLineItem_def
        getLineItemDetails_def contractsWithLineItem_def exactDuplicate_def)

lemma orElse_Some_empty_default: "orElse (Some x) [] = x"
  by (simp add: orElse_def)

lemma variableCostMatches_contract:
  "m \<in> set (variableCostMatches n cs) \<Longrightarrow> \<exists>c \<in> set cs. c_id c = m_contractId m"
  by (auto simp: variableCostMatches_def)

lemma keywordFallback_id:
  "r_matchingContractId (keywordFallback n fm) = Some (m_contractId fm)"
  by (simp add: keywordFallback_def Let_def)

lemma detect_matching_id:
  assumes "r_matchingContractId (fst (detectVariableCostDuplicates gen n cs s)) = Some cid"
  shows "\<exists>c \<in> set cs. c_id c = cid"
proof (cases "variableCostMatches n cs")
  case Nil
  with assms show ?thesis by (simp add: detectVariableCostDuplicates_def)
next
  case (Cons fm rest)
  then have "fm \<in> set (variableCostMatches n cs)" by simp
  then have ex: "\<exists>c \<in> set cs. c_id c = m_contractId fm"
    by (rule variableCostMatches_contract)
  have "cid = m_contractId fm"
    using assms Cons
    by (auto simp: detectVariableCostDuplicates_def keywordFallback_id
          split: prod.splits option.splits)
  with ex show ?thesis by simp
qed

lemma find_in_set:
  "\<exists>c \<in> set cs. P c \<Longrightarrow> \<exists>c'. find P cs = Some c' \<and> c' \<in> set cs \<and> P c'"
  by (induction cs) auto

lemma checkLineItem_new_findings:
  assumes "d \<in> set (fst (checkLineItem db gen ex item ([], s)))"
  shows "d_lineItemId d = lineItemId item \<and>
         (\<exists>c \<in> set (contractsWithLineItem ex item).
            c_id c = d_existingContractId d \<and> c_contractNumber c = d_existingContractNumber d)"
proof (cases "getLineItemDetails db (lineItemId item)")
  case None
  with assms show ?thesis by (simp add: checkLineItem_def)
next
  case (Some li)
  let ?cwl = "contractsWithLineItem ex item"
  show ?thesis
  proof (cases "li_type li = FixedCost")
    case True
    with assms Some show ?thesis
      by (auto simp: checkLineItem_def Let_def exactDuplicate_def split: if_splits)
  next
    case False
    obtain r s' where det: "detectVariableCostDuplicates gen item ?cwl s = (r, s')"
      by (cases "detectVariableCostDuplicates gen item ?cwl s")
    show ?thesis
    proof (cases "r_matchingContractId r")
      case None
      with assms Some False det show ?thesis
        by (simp add: checkLineItem_def Let_def split: if_splits)
    next
      case (Some cid)
      have "\<exists>c \<in> set ?cwl. c_id c = cid"
        using detect_matching_id [of gen item ?cwl s cid] det Some by simp
      then obtain c' where f: "find (\<lambda>c. c_id c = cid) ?cwl = Some c'"
          and c': "c' \<in> set ?cwl" "c_id c' = cid"
        using find_in_set [of ?cwl "\<lambda>c. c_id c = cid"] by auto
      have "d = \<lparr>d_lineItemId = lineItemId item, d_lineItemName = li_name li,
                d_existingContractId = cid,
                d_existingContractNumber = c_contractNumber c',
                d_matchType = Semantic,
                d_similarityScore = Some (r_similarityScore r),
                d_aiReasoning = Some (r_reasoning r)\<rparr>"
        using assms \<open>getLineItemDetails db (lineItemId item) = Some li\<close> False det Some f
        by (simp add: checkLineItem_def Let_def orElse_Some_empty_default split: if_splits)
      with c' show ?thesis by auto
    qed
  qed
qed

lemma checkLineItems_new_findings:
  assumes "d \<in> set (fst (checkLineItems db gen ex xs ([], s)))"
  shows "\<exists>item \<in> set xs. d_lineItemId d = lineItemId item \<and>
         (\<exists>c \<in> set (contractsWithLineItem ex item).
            c_id c = d_existingContractId d \<and> c_contractNumber c = d_existingContractNumber d)"
  using assms
proof (induction xs arbitrary: s)
  case Nil
  then show ?case by simp
next
  case (Cons x xs)
  obtain d1 s1 where st: "checkLineItem db gen ex x ([], s) = (d1, s1)"
    by (cases "checkLineItem db gen ex x ([], s)")
  have "fst (checkLineItems db gen ex (x # xs) ([], s)) =
          d1 @ fst (checkLineItems db gen ex xs ([], s1))"
    using checkLineItems_acc [of db gen ex xs d1 s1] by (simp add: st)
  with Cons.prems have "d \<in> set d1 \<or> d \<in> set (fst (checkLineItems db gen ex xs ([], s1)))"
    by auto
  then show ?case
  proof
    assume "d \<in> set d1"
    then have "d \<in> set (fst (checkLineItem db gen ex x ([], s)))" by (simp add: st)
    from checkLineItem_new_findings [OF this] show ?thesis by auto
  next
    assume "d \<in> set (fst (checkLineItems db gen ex xs ([], s1)))"
    from Cons.IH [OF this] show ?thesis by auto
  qed
qed

lemma checkLineItem_fixed:
  assumes "getLineItemDetails db (lineItemId item) = Some li" and "li_type li = FixedCost"
  shows "checkLineItem db gen ex item (dups, s) =
           (dups @ map (exactDuplicate item li) (contractsWithLineItem ex item), s)"
  using assms by (simp add: checkLineItem_def Let_def)

lemma checkLineItem_missing:
  assumes "getLineItemDetails db (lineItemId item) = None"
  shows "checkLineItem db gen ex item st = st"
  using assms by (simp add: checkLineItem_def split: prod.splits)

lemma detect_state_independent:
  assumes "\<forall>n e s s'. fst (gen n e s) = fst (gen n e s')"
  shows "fst (detectVariableCostDuplicates gen item cs s) =
         fst (detectVariableCostDuplicates gen item cs s')"
proof (cases "variableCostMatches item cs")
  case Nil
  then show ?thesis by (simp add: detectVariableCostDuplicates_def)
next
  case (Cons fm rest)
  let ?n = "orElse (details item) ''No details provided''"
  have "fst (gen ?n (m_details fm) s) = fst (gen ?n (m_details fm) s')"
    using assms by blast
  then show ?thesis
    by (cases "gen ?n (m_details fm) s"; cases "gen ?n (m_details fm) s'")
       (auto simp: detectVariableCostDuplicates_def Cons split: option.splits)
qed

lemma checkLineItem_state_independent:
  assumes "\<forall>n e s s'. fst (gen n e s) = fst (gen n e s')"
  shows "fst (checkLineItem db gen ex item (dups, s)) =
         fst (checkLineItem db gen ex item (dups, s'))"
proof -
  let ?cwl = "contractsWithLineItem ex item"
  have "fst (detectVariableCostDuplicates gen item ?cwl s) =
        fst (detectVariableCostDuplicates gen item ?cwl s')"
    using assms by (rule detect_state_independent)
  then show ?thesis
    by (cases "detectVariableCostDuplicates gen item ?cwl s";
        cases "detectVariableCostDuplicates gen item ?cwl s'")
       (auto simp: checkLineItem_def Let_def split: option.splits)
qed

lemma checkLineItems_state_independent:
  assumes "\<forall>n e s s'. fst (gen n e s) = fst (gen n e s')"
  shows "fst (checkLineItems db gen ex xs (dups, s)) =
         fst (checkLineItems db gen ex xs (dups, s'))"
proof (induction xs arbitrary: dups s s')
  case Nil
  show ?case by simp
next
  case (Cons x xs)
  obtain d1 t1 where a: "checkLineItem db gen ex x (dups, s) = (d1, t1)"
    by (cases "checkLineItem db gen ex x (dups, s)")
  obtain d2 t2 where b: "checkLineItem db gen ex x (dups, s') = (d2, t2)"
    by (cases "checkLineItem db gen ex x (dups, s')")
  have "d1 = d2"
    using checkLineItem_state_independent [OF assms, of db ex x dups s s'] a b by simp
  then show ?case
    using Cons.IH [of d1 t1 t2] by (simp add: a b)
qed

lemmas eval_defs =
  findDuplicates_def MOCK_DB_def MOCK_CONTRACTS_def MOCK_LINE_ITEMS_def
  searchExistingContracts_def checkLineItem_def getLineItemDetails_def
  contractsWithLineItem_def exactDuplicate_def detectVariableCostDuplicates_def
  variableCostMatches_def orElse_def fixedOracle_def failingOracle_def
  scenarioA_def fiberAward_def fiberEntry_def switchEntry_def unknownEntry_def
  twoContractsDB_def contract005_def analysisB_def analysisScoreOnly_def
  contract001_def missingSiteAward_def contractNoDetails_def shoutedEntry_def bareEntry_def

lemma fiberAward_findings:
  "findDuplicates MOCK_DB (fixedOracle analysisB) fiberAward s =
     ([\<lparr>d_lineItemId = ''line-001'', d_lineItemName = ''Fiber Optic Cable Installation'',
        d_existingContractId = ''contract-001'', d_existingContractNumber = ''PO-2025-001'',
        d_matchType = Semantic, d_similarityScore = Some (85 / 100),
        d_aiReasoning = Some ''same work''\<rparr>], Suc s)"
  by (simp add: eval_defs)


lemma variableCostMatches_concat:
  "variableCostMatches n cs = concat (map (matchesOf n) cs)"
  unfolding variableCostMatches_def matchesOf_def by (simp add: filter_concat comp_def)

lemma orElse_empty_iff: "orElse (details e) [] \<noteq> [] \<longleftrightarrow> hasDetails e"
  by (simp add: orElse_def hasDetails_def split: option.splits)

lemma matchesOf_entries:
  "matchesOf n c =
     map (\<lambda>li. \<lparr>m_contractId = c_id c, m_contractNumber = c_contractNumber c,
                m_details = orElse (details li) []\<rparr>)
       (filter (comparable n) (c_lineItems c))"
proof -
  have "comparable n = (\<lambda>x. lineItemId x = lineItemId n \<and> hasDetails x)"
    by (rule ext) (simp add: comparable_def)
  then show ?thesis
    by (simp add: matchesOf_def filter_map comp_def orElse_empty_iff conj_commute)
qed

lemma matchesOf_none:
  assumes "\<forall>e \<in> set (c_lineItems c). \<not> comparable n e"
  shows "matchesOf n c = []"
  using assms by (simp add: matchesOf_entries filter_empty_conv)

lemma variableCostMatches_none:
  assumes "\<forall>c \<in> set cs. \<forall>e \<in> set (c_lineItems c). \<not> comparable n e"
  shows "variableCostMatches n cs = []"
  using assms by (simp add: variableCostMatches_concat matchesOf_none)

lemma variableCostMatches_first:
  assumes "\<forall>c' \<in> set cs1. \<forall>e' \<in> set (c_lineItems c'). \<not> comparable n e'"
    and "c_lineItems c = es1 @ e # es2"
    and "\<forall>e' \<in> set es1. \<not> comparable n e'"
    and "comparable n e" and "details e = Some d"
  shows "\<exists>rest. variableCostMatches n (cs1 @ c # cs2) =
           \<lparr>m_contractId = c_id c, m_contractNumber = c_contractNumber c, m_details = d\<rparr> # rest"
proof -
  have a: "concat (map (matchesOf n) cs1) = []"
    using assms(1) by (simp add: matchesOf_none)
  have b: "filter (comparable n) es1 = []"
    using assms(3) by (simp add: filter_empty_conv)
  have "d \<noteq> []"
    using assms(4,5) by (simp add: comparable_def hasDetails_def)
  then have "matchesOf n c =
      \<lparr>m_contractId = c_id c, m_contractNumber = c_contractNumber c, m_details = d\<rparr> #
      map (\<lambda>li. \<lparr>m_contractId = c_id c, m_contractNumber = c_contractNumber c,
                 m_details = orElse (details li) []\<rparr>) (filter (comparable n) es2)"
    using assms(2,4,5) b by (simp add: matchesOf_entries orElse_def)
  then show ?thesis
    by (simp add: variableCostMatches_concat a)
qed

lemma checkLineItem_variable_shape:
  assumes "getLineItemDetails db (lineItemId n) = Some li" and "li_type li = VariableCost"
  shows "\<exists>new. fst (checkLineItem db gen ex n (dups, s)) = dups @ new \<and> length new \<le> 1 \<and>
           list_all (\<lambda>d. d_matchType d = Semantic \<and> d_lineItemId d = lineItemId n) new"
  using assms
  by (auto simp: checkLineItem_def Let_def split: prod.splits option.splits)




lemma findDuplicates_skip:
  assumes "getLineItemDetails db (lineItemId item) = None"
  shows "findDuplicates db gen (award\<lparr>a_lineItems := pre @ item # post\<rparr>) s =
           findDuplicates db gen (award\<lparr>a_lineItems := pre @ post\<rparr>) s"
proof -
  let ?a1 = "award\<lparr>a_lineItems := pre @ item # post\<rparr>"
  let ?a2 = "award\<lparr>a_lineItems := pre @ post\<rparr>"
  let ?ex1 = "searchExistingContracts db
                \<lparr>p_siteId = a_siteId award, p_porId = a_porId award,
                 p_lineItemIds = map lineItemId (pre @ item # post)\<rparr>"
  let ?ex2 = "searchExistingContracts db
                \<lparr>p_siteId = a_siteId award, p_porId = a_porId award,
                 p_lineItemIds = map lineItemId (pre @ post)\<rparr>"
  have same: "\<forall>x \<in> set (pre @ post).
                contractsWithLineItem ?ex1 x = contractsWithLineItem ?ex2 x"
  proof
    fix x
    assume x: "x \<in> set (pre @ post)"
    then have "lineItemId x \<in> set (map lineItemId (pre @ item # post))"
      and "lineItemId x \<in> set (map lineItemId (pre @ post))"
      by auto
    then show "contractsWithLineItem ?ex1 x = contractsWithLineItem ?ex2 x"
      by (simp only: contractsWithLineItem_search)
  qed
  have "findDuplicates db gen ?a1 s =
      checkLineItems db gen ?ex1 post
        (checkLineItem db gen ?ex1 item (checkLineItems db gen ?ex1 pre ([], s)))"
    by (simp add: findDuplicates_def Let_def checkLineItems_append)
  also have "\<dots> = checkLineItems db gen ?ex1 (pre @ post) ([], s)"
    by (simp add: checkLineItem_missing [OF assms] checkLineItems_append)
  also have "\<dots> = checkLineItems db gen ?ex2 (pre @ post) ([], s)"
    using same by (rule checkLineItems_cong)
  also have "\<dots> = findDuplicates db gen ?a2 s"
    by (simp add: findDuplicates_def Let_def)
  finally show ?thesis .
qed

lemma POST_skip:
  assumes "getLineItemDetails db (lineItemId item) = None"
  shows "resp_body (fst (POST db ext
             \<lparr>messages = ms, awardData = Some (award\<lparr>a_lineItems := pre @ item # post\<rparr>)\<rparr> s0)) =
           map countOneMore (resp_body (fst (POST db ext
             \<lparr>messages = ms, awardData = Some (award\<lparr>a_lineItems := pre @ post\<rparr>)\<rparr> s0)))"
proof -
  obtain textId s1 where u: "randomUUID ext s0 = (textId, s1)"
    by (cases "randomUUID ext s0")
  obtain dups s2 where f: "findDuplicates db (generateObject ext)
      (award\<lparr>a_lineItems := pre @ post\<rparr>) s1 = (dups, s2)"
    by (cases "findDuplicates db (generateObject ext) (award\<lparr>a_lineItems := pre @ post\<rparr>) s1")
  have f': "findDuplicates db (generateObject ext)
      (award\<lparr>a_lineItems := pre @ item # post\<rparr>) s1 = (dups, s2)"
    using f by (simp only: findDuplicates_skip [OF assms])
  show ?thesis
    by (simp add: POST_def extractAwardData_def u f f' Let_def split: prod.splits)
qed

section \<open>The claims\<close>




text \<open>
  C2. The search returns exactly the contracts of the store, in store order, that are
  awarded, stand at the given site and POR and hold a line item whose identifier is among
  the given ones. Consequently every finding of an evaluation is backed by an awarded
  contract at the award's site and POR that holds the finding's line item and whose
  identifier and number the finding carries: a cancelled or pending contract contributes
  none.
\<close>

theorem C2_search_awarded_only:
  "searchExistingContracts db params =
     filter (\<lambda>c. c_status c = Awarded \<and> Some (c_siteId c) = p_siteId params \<and>
                 Some (c_porId c) = p_porId params \<and>
                 (\<exists>li \<in> set (c_lineItems c). lineItemId li \<in> set (p_lineItemIds params)))
       (contracts db)
   \<and> (\<forall>d \<in> set (fst (findDuplicates db gen award s)).
        \<exists>c \<in> set (contracts db).
          c_status c = Awarded \<and> Some (c_siteId c) = a_siteId award \<and>
          Some (c_porId c) = a_porId award \<and>
          (\<exists>e \<in> set (c_lineItems c). lineItemId e = d_lineItemId d) \<and>
          c_id c = d_existingContractId d \<and> c_contractNumber c = d_existingContractNumber d)"
proof (intro conjI ballI)
  show "searchExistingContracts db params =
     filter (\<lambda>c. c_status c = Awarded \<and> Some (c_siteId c) = p_siteId params \<and>
                 Some (c_porId c) = p_porId params \<and>
                 (\<exists>li \<in> set (c_lineItems c). lineItemId li \<in> set (p_lineItemIds params)))
       (contracts db)"
    by (simp add: searchExistingContracts_def list_ex_iff)
next
  fix d
  let ?ex = "searchExistingContracts db
                \<lparr>p_siteId = a_siteId award, p_porId = a_porId award,
                 p_lineItemIds = map lineItemId (a_lineItems award)\<rparr>"
  assume "d \<in> set (fst (findDuplicates db gen award s))"
  then have "d \<in> set (fst (checkLineItems db gen ?ex (a_lineItems award) ([], s)))"
    by (simp add: findDuplicates_def Let_def)
  from checkLineItems_new_findings [OF this]
  obtain item c where item: "item \<in> set (a_lineItems award)"
      and lid: "d_lineItemId d = lineItemId item"
      and c: "c \<in> set (contractsWithLineItem ?ex item)"
      and ids: "c_id c = d_existingContractId d" "c_contractNumber c = d_existingContractNumber d"
    by blast
  have "lineItemId item \<in> set (map lineItemId (a_lineItems award))"
    using item by simp
  from c [unfolded contractsWithLineItem_search [OF this]]
  have "c \<in> set (awardedAt db award (d_lineItemId d))" by (simp add: lid)
  with ids show "\<exists>c \<in> set (contracts db).
          c_status c = Awarded \<and> Some (c_siteId c) = a_siteId award \<and>
          Some (c_porId c) = a_porId award \<and>
          (\<exists>e \<in> set (c_lineItems c). lineItemId e = d_lineItemId d) \<and>
          c_id c = d_existingContractId d \<and> c_contractNumber c = d_existingContractNumber d"
    by (auto simp: awardedAt_def)
qed

theorem C2_search_awarded_only_witness:
  "map c_id (searchExistingContracts MOCK_DB
      \<lparr>p_siteId = Some ''site-001'', p_porId = Some ''por-001'',
       p_lineItemIds = [''line-001'']\<rparr>) = [''contract-001'']
   \<and> map d_existingContractId (fst (findDuplicates MOCK_DB (fixedOracle analysisB) fiberAward 0))
       = [''contract-001'']"
  using C2_search_awarded_only [of MOCK_DB
      "\<lparr>p_siteId = Some ''site-001'', p_porId = Some ''por-001'',
        p_lineItemIds = [''line-001'']\<rparr>" "fixedOracle analysisB" fiberAward 0]
  by (simp add: fiberAward_findings) (simp add: MOCK_DB_def MOCK_CONTRACTS_def)

text \<open>
  C3. For a variable-cost proposed line item that reaches the model call (some candidate
  has comparable details, and the call returns an analysis), the verdict of
  \<^verbatim>\<open>detectVariableCostDuplicates\<close> is true exactly when the analysis reports
  \<^verbatim>\<open>is_duplicate\<close> or its \<^verbatim>\<open>similarity_score\<close> is strictly above 0.7: the two
  signals are joined by OR.
\<close>

theorem C3_oracle_verdict:
  assumes "variableCostMatches newLineItem existingContracts = firstMatch # others"
    and "gen (orElse (details newLineItem) ''No details provided'') (m_details firstMatch) s
           = (Some obj, s')"
  shows "r_isDuplicate (fst (detectVariableCostDuplicates gen newLineItem existingContracts s))
           = (is_duplicate obj \<or> similarity_score obj > 7 / 10)"
  using assms by (simp add: detectVariableCostDuplicates_def)

theorem C3_oracle_verdict_witness:
  "r_isDuplicate (fst (detectVariableCostDuplicates (fixedOracle analysisScoreOnly)
      fiberEntry [contract001] 0)) = True"
proof -
  have m: "variableCostMatches fiberEntry [contract001] =
      \<lparr>m_contractId = ''contract-001'', m_contractNumber = ''PO-2025-001'',
       m_details = ''Install fiber optic cable from main hub to building basement''\<rparr> # []"
    by (simp add: variableCostMatches_def fiberEntry_def contract001_def MOCK_CONTRACTS_def
          orElse_def)
  have g: "fixedOracle analysisScoreOnly
             (orElse (details fiberEntry) ''No details provided'')
             (m_details \<lparr>m_contractId = ''contract-001'', m_contractNumber = ''PO-2025-001'',
                m_details = ''Install fiber optic cable from main hub to building basement''\<rparr>)
             0 = (Some analysisScoreOnly, Suc 0)"
    by (simp add: fixedOracle_def)
  show ?thesis
    using C3_oracle_verdict [where gen = "fixedOracle analysisScoreOnly", OF m g]
    by (simp add: analysisScoreOnly_def)
qed




text \<open>
  C5. When the handler has an award, the stream carries no summary and no warning chunk
  if the loop found no duplicate; otherwise it carries exactly one of each, and the
  summary's \<^verbatim>\<open>warningLevel\<close> is low for one duplicate, medium for two or three and high
  for four or more.
\<close>

theorem C5_warning_level:
  assumes "extractAwardData ext req = Some award"
  shows "let dups = fst (findDuplicates db (generateObject ext) award (snd (randomUUID ext s0)));
             body = resp_body (fst (POST db ext req s0));
             n = length dups
         in summaryLevels body =
              (if n = 0 then [] else if n = 1 then [Low]
               else if n = 2 \<or> n = 3 then [Medium] else [High])
            \<and> duplicateWarnings body = (if n = 0 then [] else [dups])"
proof -
  obtain textId s1 where u: "randomUUID ext s0 = (textId, s1)"
    by (cases "randomUUID ext s0")
  obtain dups s2 where f: "findDuplicates db (generateObject ext) award s1 = (dups, s2)"
    by (cases "findDuplicates db (generateObject ext) award s1")
  show ?thesis
  proof (cases "length dups = 0")
    case True
    then show ?thesis
      using assms u f by (simp add: POST_def Let_def split: prod.splits)
  next
    case False
    then have "warningLevel (length dups) =
        (if length dups = 1 then Low
         else if length dups = 2 \<or> length dups = 3 then Medium else High)"
      by (rule warningLevel_cases)
    with False show ?thesis
      using assms u f by (simp add: POST_def Let_def split: prod.splits)
  qed
qed

theorem C5_warning_level_witness:
  "summaryLevels (resp_body (fst (POST MOCK_DB (testExternals (fixedOracle analysisB))
      \<lparr>messages = [], awardData = Some scenarioA\<rparr> 0))) = [Low]"
proof -
  have e: "extractAwardData (testExternals (fixedOracle analysisB))
             \<lparr>messages = [], awardData = Some scenarioA\<rparr> = Some scenarioA"
    by (simp add: extractAwardData_def)
  show ?thesis
    using C5_warning_level [OF e, of MOCK_DB 0]
    by (simp add: Let_def testExternals_def scenarioA_findings)
qed

text \<open>
  C6. For a proposed entry of a fixed-cost line item, the findings of the evaluation are
  those of the entries before it, then one exact-match finding for each awarded contract
  at the award's site and POR that holds a line item with the entry's identifier (in
  store order, one per contract, none merged), then those of the entries after it.
\<close>

theorem C6_fixed_cost_per_contract:
  assumes "a_lineItems award = pre @ item # post"
    and "getLineItemDetails db (lineItemId item) = Some li"
    and "li_type li = FixedCost"
  shows "let ex = searchExistingContracts db
                    \<lparr>p_siteId = a_siteId award, p_porId = a_porId award,
                     p_lineItemIds = map lineItemId (a_lineItems award)\<rparr>;
             st1 = checkLineItems db gen ex pre ([], s)
         in fst (findDuplicates db gen award s) =
              fst st1 @
              map (\<lambda>c. \<lparr>d_lineItemId = lineItemId item, d_lineItemName = li_name li,
                         d_existingContractId = c_id c,
                         d_existingContractNumber = c_contractNumber c,
                         d_matchType = Exact, d_similarityScore = None,
                         d_aiReasoning = None\<rparr>)
                (filter (\<lambda>c. c_status c = Awarded \<and> Some (c_siteId c) = a_siteId award \<and>
                             Some (c_porId c) = a_porId award \<and>
                             (\<exists>e \<in> set (c_lineItems c). lineItemId e = lineItemId item))
                   (contracts db)) @
              fst (checkLineItems db gen ex post ([], snd st1))"
proof -
  define ex where "ex = searchExistingContracts db
               \<lparr>p_siteId = a_siteId award, p_porId = a_porId award,
                p_lineItemIds = map lineItemId (a_lineItems award)\<rparr>"
  obtain d1 s1 where st1: "checkLineItems db gen ex pre ([], s) = (d1, s1)"
    by (cases "checkLineItems db gen ex pre ([], s)")
  have "lineItemId item \<in> set (map lineItemId (a_lineItems award))"
    using assms(1) by simp
  then have cwl: "contractsWithLineItem ex item = awardedAt db award (lineItemId item)"
    unfolding ex_def by (rule contractsWithLineItem_search)
  have step: "checkLineItem db gen ex item (d1, s1) =
      (d1 @ map (exactDuplicate item li) (awardedAt db award (lineItemId item)), s1)"
    by (simp only: checkLineItem_fixed [OF assms(2,3)] cwl)
  have "findDuplicates db gen award s = checkLineItems db gen ex (a_lineItems award) ([], s)"
    by (simp add: findDuplicates_def Let_def ex_def)
  also have "\<dots> = checkLineItems db gen ex post (checkLineItem db gen ex item (d1, s1))"
    by (simp add: assms(1) checkLineItems_append st1)
  also have "\<dots> = ((d1 @ map (exactDuplicate item li) (awardedAt db award (lineItemId item)))
                    @ fst (checkLineItems db gen ex post ([], s1)),
                  snd (checkLineItems db gen ex post ([], s1)))"
    unfolding step by (rule checkLineItems_acc)
  finally have "fst (findDuplicates db gen award s) =
      d1 @ map (exactDuplicate item li) (awardedAt db award (lineItemId item))
         @ fst (checkLineItems db gen ex post ([], s1))"
    by simp
  moreover have "exactDuplicate item li =
      (\<lambda>c. \<lparr>d_lineItemId = lineItemId item, d_lineItemName = li_name li,
            d_existingContractId = c_id c, d_existingContractNumber = c_contractNumber c,
            d_matchType = Exact, d_similarityScore = None, d_aiReasoning = None\<rparr>)"
    by (rule ext) (simp add: exactDuplicate_def)
  ultimately show ?thesis
    using st1 by (simp add: Let_def awardedAt_def ex_def)
qed

theorem C6_fixed_cost_per_contract_witness:
  "map d_existingContractId
     (fst (findDuplicates twoContractsDB (fixedOracle analysisB) scenarioA 0))
   = [''contract-001'', ''contract-005'']"
proof -
  have a: "a_lineItems scenarioA = [] @ switchEntry # []"
    by (simp add: scenarioA_def switchEntry_def)
  have b: "getLineItemDetails twoContractsDB (lineItemId switchEntry) =
      Some \<lparr>li_id = ''line-002'', li_name = ''Network Switch'', li_type = FixedCost,
            li_details = None\<rparr>"
    by (simp add: eval_defs)
  have c: "li_type \<lparr>li_id = ''line-002'', li_name = ''Network Switch'', li_type = FixedCost,
            li_details = None\<rparr> = FixedCost"
    by simp
  show ?thesis
    using C6_fixed_cost_per_contract [OF a b c, of "fixedOracle analysisB" 0]
    by (simp add: Let_def) (simp add: eval_defs)
qed

text \<open>
  C7, as the handler behaves. For a proposed entry: when no candidate contract holds a
  comparable entry, the detection returns not-duplicate with score 0 and the reasoning
  \<^verbatim>\<open>No variable-cost items with details found to compare\<close>, leaving the world state
  untouched (no model call); when the first comparable entry in candidate order has
  details \<open>d\<close>, the world state afterwards is that of one model call on \<open>d\<close> and the
  result names that candidate's contract; and an entry of a variable-cost line item adds
  at most one finding, a semantic one.
\<close>

theorem C7_first_candidate_only:
  "((\<forall>c \<in> set cs. \<forall>e \<in> set (c_lineItems c). \<not> comparable n e) \<longrightarrow>
      detectVariableCostDuplicates gen n cs s =
        (\<lparr>r_isDuplicate = False, r_similarityScore = 0,
          r_reasoning = ''No variable-cost items with details found to compare'',
          r_matchingContractId = None\<rparr>, s))
   \<and> ((\<forall>c' \<in> set cs1. \<forall>e' \<in> set (c_lineItems c'). \<not> comparable n e') \<and>
       c_lineItems c = es1 @ e # es2 \<and> (\<forall>e' \<in> set es1. \<not> comparable n e') \<and>
       comparable n e \<and> details e = Some d \<longrightarrow>
      snd (detectVariableCostDuplicates gen n (cs1 @ c # cs2) s) =
        snd (gen (orElse (details n) ''No details provided'') d s) \<and>
      r_matchingContractId (fst (detectVariableCostDuplicates gen n (cs1 @ c # cs2) s)) =
        Some (c_id c))
   \<and> (getLineItemDetails db (lineItemId n) = Some li \<and> li_type li = VariableCost \<longrightarrow>
      (\<exists>new. fst (checkLineItem db gen ex n (dups, s)) = dups @ new \<and> length new \<le> 1 \<and>
         list_all (\<lambda>d. d_matchType d = Semantic \<and> d_lineItemId d = lineItemId n) new))"
proof (intro conjI impI)
  assume "\<forall>c \<in> set cs. \<forall>e \<in> set (c_lineItems c). \<not> comparable n e"
  then have "variableCostMatches n cs = []"
    by (rule variableCostMatches_none)
  then show "detectVariableCostDuplicates gen n cs s =
        (\<lparr>r_isDuplicate = False, r_similarityScore = 0,
          r_reasoning = ''No variable-cost items with details found to compare'',
          r_matchingContractId = None\<rparr>, s)"
    by (simp add: detectVariableCostDuplicates_def)
next
  assume h: "(\<forall>c' \<in> set cs1. \<forall>e' \<in> set (c_lineItems c'). \<not> comparable n e') \<and>
       c_lineItems c = es1 @ e # es2 \<and> (\<forall>e' \<in> set es1. \<not> comparable n e') \<and>
       comparable n e \<and> details e = Some d"
  then obtain rest where m: "variableCostMatches n (cs1 @ c # cs2) =
      \<lparr>m_contractId = c_id c, m_contractNumber = c_contractNumber c, m_details = d\<rparr> # rest"
    using variableCostMatches_first [of cs1 n c es1 e es2 d cs2] by blast
  show "snd (detectVariableCostDuplicates gen n (cs1 @ c # cs2) s) =
        snd (gen (orElse (details n) ''No details provided'') d s)"
    by (simp add: detectVariableCostDuplicates_def m split: prod.splits option.splits)
  show "r_matchingContractId (fst (detectVariableCostDuplicates gen n (cs1 @ c # cs2) s)) =
        Some (c_id c)"
    by (simp add: detectVariableCostDuplicates_def m keywordFallback_id
          split: prod.splits option.splits)
next
  assume "getLineItemDetails db (lineItemId n) = Some li \<and> li_type li = VariableCost"
  then have "getLineItemDetails db (lineItemId n) = Some li" and "li_type li = VariableCost"
    by simp_all
  then show "\<exists>new. fst (checkLineItem db gen ex n (dups, s)) = dups @ new \<and> length new \<le> 1 \<and>
         list_all (\<lambda>d. d_matchType d = Semantic \<and> d_lineItemId d = lineItemId n) new"
    by (rule checkLineItem_variable_shape)
qed

theorem C7_first_candidate_only_witness:
  "detectVariableCostDuplicates (fixedOracle analysisB) fiberEntry [contractNoDetails] 0 =
     (\<lparr>r_isDuplicate = False, r_similarityScore = 0,
       r_reasoning = ''No variable-cost items with details found to compare'',
       r_matchingContractId = None\<rparr>, 0)
   \<and> snd (detectVariableCostDuplicates (fixedOracle analysisB) fiberEntry
            ([contractNoDetails] @ contract001 # [contract007]) 0) = Suc 0
   \<and> r_matchingContractId (fst (detectVariableCostDuplicates (fixedOracle analysisB) fiberEntry
            ([contractNoDetails] @ contract001 # [contract007]) 0)) = Some ''contract-001''
   \<and> length (fst (checkLineItem MOCK_DB (fixedOracle analysisB) [contract001, contract007]
            fiberEntry ([], 0))) \<le> 1"
proof -
  note t = C7_first_candidate_only [where cs = "[contractNoDetails]" and n = fiberEntry
      and gen = "fixedOracle analysisB" and s = 0 and ?cs1.0 = "[contractNoDetails]"
      and c = contract001 and ?es1.0 = "[]"
      and e = "\<lparr>lineItemId = ''line-001'', quantity = None,
          details = Some ''Install fiber optic cable from main hub to building basement''\<rparr>"
      and ?es2.0 = "[\<lparr>lineItemId = ''line-002'', quantity = Some 2, details = None\<rparr>]"
      and d = "''Install fiber optic cable from main hub to building basement''"
      and ?cs2.0 = "[contract007]" and db = MOCK_DB
      and li = "\<lparr>li_id = ''line-001'', li_name = ''Fiber Optic Cable Installation'',
                 li_type = VariableCost, li_details = None\<rparr>"
      and ex = "[contract001, contract007]" and dups = "[]"]
  have h1: "\<forall>c \<in> set [contractNoDetails]. \<forall>e \<in> set (c_lineItems c). \<not> comparable fiberEntry e"
    by (simp add: contractNoDetails_def comparable_def hasDetails_def)
  have h2: "c_lineItems contract001 =
      [] @ \<lparr>lineItemId = ''line-001'', quantity = None,
          details = Some ''Install fiber optic cable from main hub to building basement''\<rparr> #
      [\<lparr>lineItemId = ''line-002'', quantity = Some 2, details = None\<rparr>]"
    by (simp add: contract001_def MOCK_CONTRACTS_def)
  have h3: "comparable fiberEntry \<lparr>lineItemId = ''line-001'', quantity = None,
          details = Some ''Install fiber optic cable from main hub to building basement''\<rparr>"
    by (simp add: comparable_def hasDetails_def fiberEntry_def)
  have h4: "getLineItemDetails MOCK_DB (lineItemId fiberEntry) =
      Some \<lparr>li_id = ''line-001'', li_name = ''Fiber Optic Cable Installation'',
                 li_type = VariableCost, li_details = None\<rparr>"
    by (simp add: eval_defs)
  have g: "snd (fixedOracle analysisB x y 0) = Suc 0" for x y
    by (simp add: fixedOracle_def)
  have c1: "c_id contract001 = ''contract-001''"
    by (simp add: contract001_def MOCK_CONTRACTS_def)
  from t h1 h2 h3 h4 show ?thesis
    by (auto simp: g c1)
qed

text \<open>
  C7 as stated fails in the reasoning text of the short-circuit result.
\<close>

theorem C7_counterexample:
  "fst (detectVariableCostDuplicates (fixedOracle analysisB) fiberEntry [contractNoDetails] 0)
   \<noteq> \<lparr>r_isDuplicate = False, r_similarityScore = 0,
       r_reasoning = ''no comparable details'', r_matchingContractId = None\<rparr>"
  by code_simp

text \<open>
  C8. A proposed entry whose identifier has no line-item definition leaves the loop's
  state as it was (no finding, no model call); the evaluation of the whole proposal
  yields the findings and the final state it yields without that entry; and for an award
  sent in the request body the stream is the one written without the entry, with the
  counts of proposed line items one higher: no chunk of its own, no error.
\<close>

theorem C8_missing_definition_skipped:
  assumes "getLineItemDetails db (lineItemId item) = None"
  shows "checkLineItem db gen ex item st = st \<and>
         findDuplicates db gen (award\<lparr>a_lineItems := pre @ item # post\<rparr>) s =
           findDuplicates db gen (award\<lparr>a_lineItems := pre @ post\<rparr>) s \<and>
         resp_body (fst (POST db ext
             \<lparr>messages = ms, awardData = Some (award\<lparr>a_lineItems := pre @ item # post\<rparr>)\<rparr> s0)) =
           map countOneMore (resp_body (fst (POST db ext
             \<lparr>messages = ms, awardData = Some (award\<lparr>a_lineItems := pre @ post\<rparr>)\<rparr> s0)))"
  using assms
  by (intro conjI checkLineItem_missing findDuplicates_skip POST_skip)

theorem C8_missing_definition_skipped_witness:
  "fst (findDuplicates MOCK_DB (fixedOracle analysisB)
      (scenarioA\<lparr>a_lineItems := [] @ unknownEntry # [switchEntry]\<rparr>) 0)
   = [\<lparr>d_lineItemId = ''line-002'', d_lineItemName = ''Network Switch'',
        d_existingContractId = ''contract-001'', d_existingContractNumber = ''PO-2025-001'',
        d_matchType = Exact, d_similarityScore = None, d_aiReasoning = None\<rparr>]"
proof -
  have a: "getLineItemDetails MOCK_DB (lineItemId unknownEntry) = None"
    by (simp add: eval_defs)
  have b: "scenarioA\<lparr>a_lineItems := [] @ [switchEntry]\<rparr> = scenarioA"
    by (simp add: scenarioA_def switchEntry_def)
  show ?thesis
    using C8_missing_definition_skipped [OF a, where gen = "fixedOracle analysisB"
        and award = scenarioA and pre = "[]" and post = "[switchEntry]" and s = 0,
        THEN conjunct2, THEN conjunct1]
    by (simp only: b scenarioA_findings fst_conv)
qed

text \<open>
  C9. With a model whose answer does not depend on the world state, the ordered findings
  of an evaluation do not depend on the state it starts from, and neither does the
  warning payload that the handler streams: two runs on the same store give the same
  findings.
\<close>

theorem C9_two_run_determinism:
  assumes "\<forall>n e s s'. fst (generateObject ext n e s) = fst (generateObject ext n e s')"
  shows "fst (findDuplicates db (generateObject ext) award s1) =
           fst (findDuplicates db (generateObject ext) award s2)
         \<and> duplicateWarnings (resp_body (fst (POST db ext req s1))) =
           duplicateWarnings (resp_body (fst (POST db ext req s2)))"
proof
  show f: "fst (findDuplicates db (generateObject ext) award s1) =
           fst (findDuplicates db (generateObject ext) award s2)" for award s1 s2
    unfolding findDuplicates_def Let_def
    using assms by (rule checkLineItems_state_independent)
  show "duplicateWarnings (resp_body (fst (POST db ext req s1))) =
        duplicateWarnings (resp_body (fst (POST db ext req s2)))"
  proof (cases "extractAwardData ext req")
    case None
    have "duplicateWarnings (map ModelChunk cs) = []" for cs
      by (induction cs) simp_all
    with None show ?thesis
      by (simp add: POST_def split: prod.splits)
  next
    case (Some a)
    have "fst (findDuplicates db (generateObject ext) a (snd (randomUUID ext s1))) =
          fst (findDuplicates db (generateObject ext) a (snd (randomUUID ext s2)))"
      by (rule f)
    with Some show ?thesis
      by (auto simp: POST_def Let_def split: prod.splits)
  qed
qed

theorem C9_two_run_determinism_witness:
  "fst (findDuplicates MOCK_DB (generateObject (testExternals (fixedOracle analysisB)))
          fiberAward 0) =
   fst (findDuplicates MOCK_DB (generateObject (testExternals (fixedOracle analysisB)))
          fiberAward 1)"
proof -
  have a: "\<forall>n e s s'. fst (generateObject (testExternals (fixedOracle analysisB)) n e s) =
             fst (generateObject (testExternals (fixedOracle analysisB)) n e s')"
    by (simp add: testExternals_def fixedOracle_def)
  show ?thesis
    using C9_two_run_determinism [OF a, of MOCK_DB fiberAward 0 1] by simp
qed

text \<open>
  C10. For a proposed entry of a variable-cost line item whose details are absent or
  empty, when some candidate holds comparable details the model is called with the
  placeholder \<^verbatim>\<open>No details provided\<close> against the first candidate's details; if its
  analysis reports a duplicate (by flag or by score), the entry is reported as one
  semantic finding.
\<close>

theorem C10_missing_details_placeholder:
  assumes "details n = None \<or> details n = Some []"
    and "getLineItemDetails db (lineItemId n) = Some li" and "li_type li = VariableCost"
    and "variableCostMatches n (contractsWithLineItem ex n) = fm # rest"
    and "gen ''No details provided'' (m_details fm) s = (Some obj, s')"
    and "is_duplicate obj \<or> similarity_score obj > 7 / 10"
    and "m_contractId fm \<noteq> []"
  shows "checkLineItem db gen ex n (dups, s) =
           (dups @ [\<lparr>d_lineItemId = lineItemId n, d_lineItemName = li_name li,
                     d_existingContractId = m_contractId fm,
                     d_existingContractNumber =
                       orElse (map_option c_contractNumber
                                 (find (\<lambda>c. c_id c = m_contractId fm)
                                    (contractsWithLineItem ex n))) [],
                     d_matchType = Semantic,
                     d_similarityScore = Some (similarity_score obj),
                     d_aiReasoning = Some (reasoning obj)\<rparr>], s')"
proof -
  have p: "orElse (details n) ''No details provided'' = ''No details provided''"
    using assms(1) by (auto simp: orElse_def)
  have ne: "contractsWithLineItem ex n \<noteq> []"
    using assms(4) by (auto simp: variableCostMatches_def)
  have det: "detectVariableCostDuplicates gen n (contractsWithLineItem ex n) s =
      (\<lparr>r_isDuplicate = True, r_similarityScore = similarity_score obj,
        r_reasoning = reasoning obj, r_matchingContractId = Some (m_contractId fm)\<rparr>, s')"
    using assms(4,5,6) by (auto simp: detectVariableCostDuplicates_def p)
  show ?thesis
    using assms(2,3,7) ne by (simp add: checkLineItem_def Let_def det)
qed

theorem C10_missing_details_placeholder_witness:
  "checkLineItem MOCK_DB (fixedOracle analysisB) [contract001] bareEntry ([], 0) =
     ([\<lparr>d_lineItemId = ''line-001'', d_lineItemName = ''Fiber Optic Cable Installation'',
        d_existingContractId = ''contract-001'', d_existingContractNumber = ''PO-2025-001'',
        d_matchType = Semantic, d_similarityScore = Some (85 / 100),
        d_aiReasoning = Some ''same work''\<rparr>], Suc 0)"
proof -
  let ?fm = "\<lparr>m_contractId = ''contract-001'', m_contractNumber = ''PO-2025-001'',
       m_details = ''Install fiber optic cable from main hub to building basement''\<rparr>"
  let ?li = "\<lparr>li_id = ''line-001'', li_name = ''Fiber Optic Cable Installation'',
                 li_type = VariableCost, li_details = None\<rparr>"
  have a: "details bareEntry = None \<or> details bareEntry = Some []"
    by (simp add: bareEntry_def)
  have b: "getLineItemDetails MOCK_DB (lineItemId bareEntry) = Some ?li"
    by (simp add: eval_defs)
  have c: "li_type ?li = VariableCost" by simp
  have cw: "contractsWithLineItem [contract001] bareEntry = [contract001]"
    by (simp add: eval_defs)
  have d: "variableCostMatches bareEntry (contractsWithLineItem [contract001] bareEntry)
      = ?fm # []"
    unfolding cw by (simp add: eval_defs)
  have e: "fixedOracle analysisB ''No details provided'' (m_details ?fm) 0
      = (Some analysisB, Suc 0)"
    by (simp add: fixedOracle_def)
  have f: "is_duplicate analysisB \<or> similarity_score analysisB > 7 / 10"
    by (simp add: analysisB_def)
  have g: "m_contractId ?fm \<noteq> []" by simp
  show ?thesis
    using C10_missing_details_placeholder [where gen = "fixedOracle analysisB" and dups = "[]",
        OF a b c d e f g]
    by (simp add: cw) (simp add: eval_defs)
qed

end
